theory Spec2Isabelle
  imports Main "HOL-Library.Word"
begin

unbundle bit_operations_syntax

section \<open>OSSLCryptoFactory.cpp: data\<close>

text \<open>
  Pointers are modelled as \<open>ptr option\<close>: \<open>None\<close> is \<open>NULL\<close>, \<open>Some a\<close> is the
  non-null address \<open>a\<close>. The C ints are 32-bit words, \<open>size_t\<close> values are naturals.
\<close>

type_synonym ptr = nat
type_synonym TSS2_RC = "32 word"

datatype error = Out_of_bounds

text \<open>The function a \<open>CRYPTO_set_locking_callback\<close> slot holds: this file's
  \<open>lock_callback\<close>, or the callback of some other component.\<close>

datatype callback = Lock_callback | Foreign_callback nat

text \<open>
  What a run does to the outside world is recorded as a trace: the messages logged and the
  calls that acquire, release or initialise something outside this file. With
  \<open>DISABLE_DLCLOSE\<close> the loader's unload makes no such call, so the destructor's call of
  it is recorded as well: \<open>Ldr_unload h\<close> says that \<open>tpm2_tcti_ldr_unload\<close> is entered
  while the plugin handle is \<open>h\<close>.
\<close>

datatype event =
    ERROR_MSG string
  | WARNING_MSG string
  | Dlopen string
  | Dlclose ptr
  | Dlsym ptr
  | Tcti_info
  | Tcti_init "ptr option"
  | Calloc nat
  | Free "ptr option"
  | Mutex_lock ptr
  | Mutex_unlock ptr
  | GetMutex
  | RecycleMutex ptr
  | Delete_locks
  | Crypto_set_locking_callback "callback option"
  | Fips_mode_set
  | Rand_init_fips
  | OpenSSL_add_all_algorithms
  | Engine_load_rdrand
  | Engine_by_id string
  | Engine_init ptr
  | Engine_set_default ptr
  | Engine_load_builtin_engines
  | Openssl_init_crypto
  | Engine_get_digest ptr
  | Engine_register_pkey_asn1_meths ptr
  | Engine_ctrl_cmd_string ptr
  | Engine_finish ptr
  | Engine_free ptr
  | New_OSSLRNG
  | Delete_rng "ptr option"
  | Sys_Initialize ptr ptr
  | Sys_GetTctiContext "ptr option"
  | Sys_Finalize "ptr option"
  | Tcti_Finalize ptr
  | Ldr_unload "ptr option"

text \<open>The members of the class \<open>OSSLCryptoFactory\<close> that the constructor and the
  destructor use (the header that declares them is not part of the sources at hand).\<close>

record factory =
  setLockingCallback :: bool
  rdrand_engine :: "ptr option"
  rng :: "ptr option"
  context_p :: "ptr option"
  eg :: "ptr option"
  EVP_GOST_34_11 :: "ptr option"

text \<open>
  The process-wide state: the statics of the file (\<open>nlocks\<close>, \<open>locks\<close>, \<open>handle\<close>,
  \<open>info\<close>, \<open>tcti\<close>, \<open>FipsSelfTestStatus\<close>), the singleton slot \<open>instance\<close>, the
  locking callback slot of the cryptographic library, and the trace.
\<close>

record world =
  nlocks :: "32 word"
  locks :: "ptr list"
  handle :: "ptr option"
  info :: "ptr option"
  tcti :: "ptr option"
  FipsSelfTestStatus :: bool
  instance_p :: "factory option"
  locking_callback :: "callback option"
  trace :: "event list"

text \<open>
  The results of the calls into the dynamic linker, the C library, the TSS2 libraries and
  the cryptographic library are not decided by this file; a run takes them from an
  environment.
  \<^item> \<open>dlopen_ret path\<close>: what \<open>dlopen(path, RTLD_LAZY)\<close> returns;
  \<^item> \<open>tcti_info_ret h\<close>: \<open>None\<close> when \<open>dlsym\<close> does not find the info symbol in
    \<open>h\<close>, otherwise the info structure the resolved function returns;
  \<^item> \<open>init_size_ret i\<close>: status and size of the sizing call \<open>init(NULL, &size, NULL)\<close>;
  \<^item> \<open>init_ctx_ret i buf\<close>: status of \<open>init(buf, &size, NULL)\<close>;
  \<^item> \<open>raw_members\<close>: the indeterminate content of a factory object before its
    constructor has assigned anything.
\<close>

record env =
  dlopen_ret :: "string \<Rightarrow> ptr option"
  tcti_info_ret :: "ptr \<Rightarrow> ptr option"
  init_size_ret :: "ptr \<Rightarrow> TSS2_RC \<times> nat"
  calloc_ret :: "nat \<Rightarrow> ptr option"
  init_ctx_ret :: "ptr \<Rightarrow> ptr \<Rightarrow> TSS2_RC"
  CRYPTO_num_locks_ret :: "32 word"
  getMutex_ret :: "nat \<Rightarrow> ptr"
  FIPS_mode_ret :: bool
  FIPS_mode_set_ret :: int
  ENGINE_by_id_ret :: "string \<Rightarrow> ptr option"
  ENGINE_init_ret :: "ptr \<Rightarrow> int"
  ENGINE_set_default_ret :: "ptr \<Rightarrow> int"
  new_OSSLRNG_ret :: ptr
  Tss2_Sys_GetContextSize_ret :: nat
  calloc_context_ret :: "nat \<Rightarrow> ptr option"
  Tss2_Sys_Initialize_ret :: TSS2_RC
  ENGINE_get_digest_ret :: "ptr \<Rightarrow> ptr option"
  ENGINE_register_pkey_asn1_meths_ret :: "ptr \<Rightarrow> int"
  ENGINE_ctrl_cmd_string_ret :: "ptr \<Rightarrow> int"
  Tss2_Sys_GetTctiContext_ret :: "ptr option \<Rightarrow> TSS2_RC \<times> ptr option"
  raw_members :: factory

text \<open>The compile-time switches that come from \<open>config.h\<close> and the library headers.
  \<open>legacy_locking\<close> is
  \<open>OPENSSL_VERSION_NUMBER < 0x10100000L || defined(LIBRESSL_VERSION_NUMBER)\<close>.\<close>

record build =
  legacy_locking :: bool
  WITH_FIPS :: bool
  WITH_GOST :: bool
  WITH_ECC :: bool
  WITH_EDDSA :: bool

text \<open>\<open>USE_TPM\<close> and \<open>DISABLE_DLCLOSE\<close> are defined in the file itself.\<close>

definition DISABLE_DLCLOSE :: bool where
  "DISABLE_DLCLOSE = True"

text \<open>Constants of the system and TSS2 headers.\<close>

definition PATH_MAX :: nat where
  "PATH_MAX = 4096"

definition TPM2_RC_SUCCESS :: TSS2_RC where
  "TPM2_RC_SUCCESS = 0"

definition TSS2_RC_SUCCESS :: TSS2_RC where
  "TSS2_RC_SUCCESS = 0"

definition TSS2_TCTI_SO_FORMAT :: "string \<Rightarrow> string" where
  "TSS2_TCTI_SO_FORMAT name = ''libtss2-tcti-'' @ name @ ''.so.0''"

definition emit :: "event list \<Rightarrow> world \<Rightarrow> world" where
  "emit es w = w\<lparr>trace := trace w @ es\<rparr>"

text \<open>The events a run from \<open>w\<close> to \<open>w'\<close> has added to the trace.\<close>

definition new_events :: "world \<Rightarrow> world \<Rightarrow> event list" where
  "new_events w w' = drop (length (trace w)) (trace w')"

section \<open>The transport plugin loader\<close>

definition tpm2_tcti_ldr_unload :: "world \<Rightarrow> world" where
  "tpm2_tcti_ldr_unload w =
     (case handle w of
        None \<Rightarrow> w
      | Some h \<Rightarrow>
          (if DISABLE_DLCLOSE then w else emit [Dlclose h] w)
            \<lparr>handle := None, info := None\<rparr>)"

definition tpm2_tcti_ldr_getinfo :: "world \<Rightarrow> ptr option" where
  "tpm2_tcti_ldr_getinfo w = info w"

text \<open>\<open>snprintf\<close> returns the length of the formatted name; a name that does not fit
  the buffer of \<open>PATH_MAX\<close> bytes is refused before any \<open>dlopen\<close>.\<close>

definition tpm2_tcti_ldr_dlopen :: "env \<Rightarrow> string \<Rightarrow> world \<Rightarrow> ptr option \<times> world" where
  "tpm2_tcti_ldr_dlopen e name w =
     (let path = TSS2_TCTI_SO_FORMAT name in
      if length path \<ge> PATH_MAX then (None, w)
      else (dlopen_ret e path, emit [Dlopen path] w))"

text \<open>The handle of the probe is a local variable that shadows the static one.\<close>

definition tpm2_tcti_ldr_is_tcti_present :: "env \<Rightarrow> string \<Rightarrow> world \<Rightarrow> bool \<times> world" where
  "tpm2_tcti_ldr_is_tcti_present e name w =
     (let (h, w1) = tpm2_tcti_ldr_dlopen e name w in
      (h \<noteq> None, (case h of None \<Rightarrow> w1 | Some p \<Rightarrow> emit [Dlclose p] w1)))"

text \<open>The part of \<open>tpm2_tcti_ldr_load\<close> that follows a successful \<open>dlopen\<close> of \<open>h\<close>:
  symbol resolution, the sizing call, the allocation and the initialising call.\<close>

definition tpm2_tcti_ldr_load_init :: "env \<Rightarrow> ptr \<Rightarrow> world \<Rightarrow> ptr option \<times> world" where
  "tpm2_tcti_ldr_load_init e h w =
     (case tcti_info_ret e h of
        None \<Rightarrow>
          (None, emit [Dlsym h, ERROR_MSG ''Symbol \"%s\"not found in library: \"%s\"'',
                       Free None, Dlclose h] w)
      | Some i \<Rightarrow>
          (let w1 = emit [Dlsym h, Tcti_info, Tcti_init None] (w\<lparr>info := Some i\<rparr>);
               (rc, size) = init_size_ret e i
           in if rc \<noteq> TPM2_RC_SUCCESS then
                (None, emit [ERROR_MSG ''tcti init setup routine failed for library: \"%s\"'',
                             Free None, Dlclose h] w1)
              else
                (case calloc_ret e size of
                   None \<Rightarrow> (None, emit [Calloc size, Free None, Dlclose h] w1)
                 | Some buf \<Rightarrow>
                     (let w2 = emit [Calloc size, Tcti_init (Some buf)] w1 in
                      if init_ctx_ret e i buf \<noteq> TPM2_RC_SUCCESS then
                        (None, emit [ERROR_MSG
                                       ''tcti init allocation routine failed for library: \"%s\"'',
                                     Free (Some buf), Dlclose h] w2)
                      else (Some buf, w2)))))"

definition tpm2_tcti_ldr_load :: "env \<Rightarrow> string \<Rightarrow> world \<Rightarrow> ptr option \<times> world" where
  "tpm2_tcti_ldr_load e path w =
     (if handle w \<noteq> None then (None, w)
      else
        (let w1 = emit [Dlopen path] (w\<lparr>handle := dlopen_ret e path\<rparr>);
             w2 = (if handle w1 = None then
                     (let (h, w') = tpm2_tcti_ldr_dlopen e path w1 in w'\<lparr>handle := h\<rparr>)
                   else w1)
         in case handle w2 of
              None \<Rightarrow> (None, emit [ERROR_MSG ''Could not dlopen library: \"%s\"''] w2)
            | Some h \<Rightarrow> tpm2_tcti_ldr_load_init e h w2))"

section \<open>The locking callback\<close>

text \<open>\<open>CRYPTO_LOCK\<close> is the acquire bit of the mode flag (\<open>openssl/crypto.h\<close>).\<close>

definition CRYPTO_LOCK :: "32 word" where
  "CRYPTO_LOCK = 1"

text \<open>
  An \<open>int\<close> is a \<open>32 word\<close> whose value is read by \<open>sint\<close>; the cast
  \<open>(unsigned) n\<close> keeps the 32 bits and the value is then read by \<open>unat\<close>. Reading \<open>locks[(unsigned) n]\<close> beyond the
  allocated array is undefined behaviour in C; the model returns \<open>Out_of_bounds\<close> there.
\<close>

definition lock_callback ::
    "32 word \<Rightarrow> 32 word \<Rightarrow> string \<Rightarrow> 32 word \<Rightarrow> world \<Rightarrow> error + world" where
  "lock_callback mode n file line w =
     (if n \<ge> nlocks w then
        Inr (emit [ERROR_MSG ''out of range [0..%u[ lock %d at %s:%d''] w)
      else if unat n < length (locks w) then
        (let mtx = locks w ! unat n in
         if mode AND CRYPTO_LOCK \<noteq> 0 then Inr (emit [Mutex_lock mtx] w)
         else Inr (emit [Mutex_unlock mtx] w))
      else Inl Out_of_bounds)"

section \<open>The constructor\<close>

text \<open>
  The constructor is split at its comments. A part that can leave the constructor by
  \<open>return\<close> yields a flag that is \<open>True\<close> when control falls through to the next part.
  Allocation by \<open>new\<close> is taken to succeed.
\<close>

definition ctor_multi_thread :: "env \<Rightarrow> world \<Rightarrow> world" where
  "ctor_multi_thread e w =
     (let n = CRYPTO_num_locks_ret e in
      emit (replicate (unat n) GetMutex)
        (w\<lparr>nlocks := n, locks := map (getMutex_ret e) [0..<unat n]\<rparr>))"

definition ctor_locking_callback :: "factory \<times> world \<Rightarrow> factory \<times> world" where
  "ctor_locking_callback fw =
     (let (f, w) = fw; f1 = f\<lparr>setLockingCallback := False\<rparr> in
      if locking_callback w = None then
        (f1\<lparr>setLockingCallback := True\<rparr>,
         emit [Crypto_set_locking_callback (Some Lock_callback)]
           (w\<lparr>locking_callback := Some Lock_callback\<rparr>))
      else (f1, w))"

definition ctor_fips :: "env \<Rightarrow> world \<Rightarrow> bool \<times> world" where
  "ctor_fips e w =
     (if \<not> FIPS_mode_ret e then
        (let w1 = emit [Fips_mode_set] (w\<lparr>FipsSelfTestStatus := False\<rparr>) in
         if FIPS_mode_set_ret e = 0 then
           (False, emit [ERROR_MSG ''can't enter into FIPS mode''] w1)
         else (True, w1\<lparr>FipsSelfTestStatus := True\<rparr>))
      else (True, (emit [Rand_init_fips] w)\<lparr>FipsSelfTestStatus := True\<rparr>))"

definition ctor_rdrand :: "env \<Rightarrow> factory \<times> world \<Rightarrow> factory \<times> world" where
  "ctor_rdrand e fw =
     (let (f, w) = fw;
          w1 = emit [OpenSSL_add_all_algorithms, Engine_load_rdrand, Engine_by_id ''rdrand''] w;
          f1 = f\<lparr>rdrand_engine := ENGINE_by_id_ret e ''rdrand''\<rparr>
      in case rdrand_engine f1 of
           None \<Rightarrow> (f1, w1)
         | Some r \<Rightarrow>
             (if ENGINE_init_ret e r = 0 then
                (f1, emit [Engine_init r, WARNING_MSG ''ENGINE_init returned %lu\<newline>''] w1)
              else if ENGINE_set_default_ret e r = 0 then
                (f1, emit [Engine_init r, Engine_set_default r,
                           WARNING_MSG ''ENGINE_set_default returned %lu\<newline>''] w1)
              else (f1, emit [Engine_init r, Engine_set_default r] w1)))"

definition ctor_rng :: "env \<Rightarrow> factory \<times> world \<Rightarrow> factory \<times> world" where
  "ctor_rng e fw =
     (let (f, w) = fw in (f\<lparr>rng := Some (new_OSSLRNG_ret e)\<rparr>, emit [New_OSSLRNG] w))"

definition ctor_tpm :: "env \<Rightarrow> factory \<times> world \<Rightarrow> bool \<times> factory \<times> world" where
  "ctor_tpm e fw =
     (let (f, w) = fw;
          (t, w1) = tpm2_tcti_ldr_load e ''tabrmd'' w;
          w2 = w1\<lparr>tcti := t\<rparr>
      in case t of
           None \<Rightarrow> (False, f, emit [ERROR_MSG ''OSSLCryptoFactory: TPM2 Failed!''] w2)
         | Some tc \<Rightarrow>
             (let size = Tss2_Sys_GetContextSize_ret e;
                  f1 = f\<lparr>context_p := calloc_context_ret e size\<rparr>;
                  w3 = emit [Calloc size] w2
              in case context_p f1 of
                   None \<Rightarrow>
                     (False, f1, emit [ERROR_MSG ''OSSLCryptoFactory: TPM2 Failed 2!''] w3)
                 | Some c \<Rightarrow>
                     (let w4 = emit [Sys_Initialize c tc] w3 in
                      if Tss2_Sys_Initialize_ret e \<noteq> TSS2_RC_SUCCESS then
                        (False, f1, emit [ERROR_MSG ''OSSLCryptoFactory: TPM2 Failed 3!'',
                                          Free (Some c)] w4)
                      else (True, f1, w4))))"

text \<open>The label \<open>err\<close> of the GOST part.\<close>

definition ctor_gost_err :: "ptr \<Rightarrow> factory \<times> world \<Rightarrow> factory \<times> world" where
  "ctor_gost_err g fw =
     (let (f, w) = fw in (f\<lparr>eg := None\<rparr>, emit [Engine_finish g, Engine_free g] w))"

definition ctor_gost :: "build \<Rightarrow> env \<Rightarrow> factory \<times> world \<Rightarrow> factory \<times> world" where
  "ctor_gost b e fw =
     (let (f, w) = fw;
          w1 = emit [if legacy_locking b then Engine_load_builtin_engines
                     else Openssl_init_crypto, Engine_by_id ''gost''] w;
          f1 = f\<lparr>eg := ENGINE_by_id_ret e ''gost''\<rparr>
      in case eg f1 of
           None \<Rightarrow> (f1, emit [ERROR_MSG ''can't get the GOST engine''] w1)
         | Some g \<Rightarrow>
             (if ENGINE_init_ret e g \<le> 0 then
                (f1\<lparr>eg := None\<rparr>,
                 emit [Engine_init g, Engine_free g,
                       ERROR_MSG ''can't initialize the GOST engine''] w1)
              else
                (let f2 = f1\<lparr>EVP_GOST_34_11 := ENGINE_get_digest_ret e g\<rparr>;
                     w2 = emit [Engine_init g, Engine_get_digest g] w1
                 in if EVP_GOST_34_11 f2 = None then
                      ctor_gost_err g (f2, emit [ERROR_MSG ''can't get the GOST digest''] w2)
                    else if ENGINE_register_pkey_asn1_meths_ret e g \<le> 0 then
                      ctor_gost_err g
                        (f2, emit [Engine_register_pkey_asn1_meths g,
                                   ERROR_MSG ''can't register ASN.1 for the GOST engine''] w2)
                    else if ENGINE_ctrl_cmd_string_ret e g \<le> 0 then
                      ctor_gost_err g
                        (f2, emit [Engine_register_pkey_asn1_meths g, Engine_ctrl_cmd_string g,
                                   ERROR_MSG ''can't set params of the GOST engine''] w2)
                    else
                      (f2, emit [Engine_register_pkey_asn1_meths g,
                                 Engine_ctrl_cmd_string g] w2))))"

text \<open>The parts before the hardware bring-up: lock pool, locking callback, FIPS mode,
  library initialisation with the RDRAND engine, and the random generator.\<close>

definition ctor_software :: "build \<Rightarrow> env \<Rightarrow> world \<Rightarrow> bool \<times> factory \<times> world" where
  "ctor_software b e w =
     (let fw1 = (raw_members e, ctor_multi_thread e w);
          (f2, w2) = (if legacy_locking b then ctor_locking_callback fw1 else fw1);
          (go, w3) = (if WITH_FIPS b then ctor_fips e w2 else (True, w2))
      in if \<not> go then (False, f2, w3)
         else (let (f4, w4) = ctor_rng e (ctor_rdrand e (f2, w3)) in (True, f4, w4)))"

definition OSSLCryptoFactory_ctor :: "build \<Rightarrow> env \<Rightarrow> world \<Rightarrow> factory \<times> world" where
  "OSSLCryptoFactory_ctor b e w =
     (let (go, f1, w1) = ctor_software b e w
      in if \<not> go then (f1, w1)
         else
           (let (go', f2, w2) = ctor_tpm e (f1, w1)
            in if \<not> go' then (f2, w2)
               else if WITH_GOST b then ctor_gost b e (f2, w2)
               else (f2, w2)))"

section \<open>The destructor\<close>

definition dtor_tpm :: "env \<Rightarrow> factory \<Rightarrow> world \<Rightarrow> world" where
  "dtor_tpm e f w =
     (let c = context_p f;
          (rc, t) = Tss2_Sys_GetTctiContext_ret e c;
          tcti_ctx = (if rc \<noteq> TSS2_RC_SUCCESS then None else t);
          w1 = emit [Sys_GetTctiContext c, Sys_Finalize c, Free c] w;
          w2 = (case tcti_ctx of
                  None \<Rightarrow> w1
                | Some tc \<Rightarrow> emit [Tcti_Finalize tc, Free (Some tc)] w1)
      in tpm2_tcti_ldr_unload (emit [Ldr_unload (handle w2)] w2))"

definition dtor_gost :: "factory \<Rightarrow> world \<Rightarrow> world" where
  "dtor_gost f w =
     (case eg f of None \<Rightarrow> w | Some g \<Rightarrow> emit [Engine_finish g, Engine_free g] w)"

definition dtor_rng :: "factory \<Rightarrow> world \<Rightarrow> world" where
  "dtor_rng f w = emit [Delete_rng (rng f)] w"

definition dtor_locking_callback :: "factory \<Rightarrow> world \<Rightarrow> world" where
  "dtor_locking_callback f w =
     (if setLockingCallback f then
        emit [Crypto_set_locking_callback None] (w\<lparr>locking_callback := None\<rparr>)
      else w)"

text \<open>The loop that recycles \<open>locks[0]\<close> to \<open>locks[nlocks - 1]\<close>, and \<open>delete[] locks\<close>.
  Neither \<open>locks\<close> nor \<open>nlocks\<close> is reset.\<close>

definition dtor_recycle_locks :: "world \<Rightarrow> error + world" where
  "dtor_recycle_locks w =
     (if unat (nlocks w) \<le> length (locks w) then
        Inr (emit (map RecycleMutex (take (unat (nlocks w)) (locks w)) @ [Delete_locks]) w)
      else Inl Out_of_bounds)"

definition OSSLCryptoFactory_dtor :: "build \<Rightarrow> env \<Rightarrow> factory \<Rightarrow> world \<Rightarrow> error + world" where
  "OSSLCryptoFactory_dtor b e f w =
     (let w1 = dtor_tpm e f w;
          w2 = (if WITH_GOST b then dtor_gost f w1 else w1);
          w3 = dtor_rng f w2;
          w4 = (if legacy_locking b then dtor_locking_callback f w3 else w3)
      in dtor_recycle_locks w4)"

section \<open>The singleton\<close>



section \<open>Algorithm dispatch\<close>

text \<open>
  The kind enumerations are declared in headers that are not part of the sources at hand.
  Each is modelled by the labels the \<open>switch\<close> statements name, and one more value,
  \<open>Unknown\<close>, that stands for every value of the enumeration no label names.
\<close>

datatype SymAlgo = SymAlgo_Unknown | AES | DES | DES3

datatype AsymAlgo =
  AsymAlgo_Unknown | RSA | DSA | DH | ECDH | ECDSA | AsymAlgo_GOST | EDDSA

datatype HashAlgo =
  HashAlgo_Unknown | MD5 | SHA1 | SHA224 | SHA256 | SHA384 | SHA512 | HashAlgo_GOST

datatype MacAlgo =
  MacAlgo_Unknown | HMAC_MD5 | HMAC_SHA1 | HMAC_SHA224 | HMAC_SHA256 | HMAC_SHA384
  | HMAC_SHA512 | HMAC_GOST | CMAC_DES | CMAC_AES

text \<open>The product classes. \<open>Some c\<close> as a result is the object \<open>new c()\<close> returns, \<open>None\<close> is
  \<open>NULL\<close>; the first component of a result is what the call logs.\<close>

datatype SymmetricAlgorithm = OSSLAES | OSSLDES

datatype AsymmetricAlgorithm =
  OSSLRSA | OSSLDSA | OSSLDH | OSSLECDH | OSSLECDSA | OSSLGOST | OSSLEDDSA

datatype HashAlgorithm =
  OSSLMD5 | OSSLSHA1 | OSSLSHA224 | OSSLSHA256 | OSSLSHA384 | OSSLSHA512 | OSSLGOSTR3411

datatype MacAlgorithm =
  OSSLHMACMD5 | OSSLHMACSHA1 | OSSLHMACSHA224 | OSSLHMACSHA256 | OSSLHMACSHA384
  | OSSLHMACSHA512 | OSSLHMACGOSTR3411 | OSSLCMACDES | OSSLCMACAES

definition unknown_algorithm :: "event list" where
  "unknown_algorithm = [ERROR_MSG (''Unknown algorithm '%i'' @ [CHR 0x27])]"

fun getSymmetricAlgorithm :: "build \<Rightarrow> SymAlgo \<Rightarrow> event list \<times> SymmetricAlgorithm option" where
  "getSymmetricAlgorithm b AES = ([], Some OSSLAES)"
| "getSymmetricAlgorithm b DES = ([], Some OSSLDES)"
| "getSymmetricAlgorithm b DES3 = ([], Some OSSLDES)"
| "getSymmetricAlgorithm b _ = (unknown_algorithm, None)"

fun getAsymmetricAlgorithm ::
    "build \<Rightarrow> AsymAlgo \<Rightarrow> event list \<times> AsymmetricAlgorithm option" where
  "getAsymmetricAlgorithm b RSA = ([], Some OSSLRSA)"
| "getAsymmetricAlgorithm b DSA = ([], Some OSSLDSA)"
| "getAsymmetricAlgorithm b DH = ([], Some OSSLDH)"
| "getAsymmetricAlgorithm b ECDH =
     (if WITH_ECC b then ([], Some OSSLECDH) else (unknown_algorithm, None))"
| "getAsymmetricAlgorithm b ECDSA =
     (if WITH_ECC b then ([], Some OSSLECDSA) else (unknown_algorithm, None))"
| "getAsymmetricAlgorithm b AsymAlgo_GOST =
     (if WITH_GOST b then ([], Some OSSLGOST) else (unknown_algorithm, None))"
| "getAsymmetricAlgorithm b EDDSA =
     (if WITH_EDDSA b then ([], Some OSSLEDDSA) else (unknown_algorithm, None))"
| "getAsymmetricAlgorithm b _ = (unknown_algorithm, None)"

fun getHashAlgorithm :: "build \<Rightarrow> HashAlgo \<Rightarrow> event list \<times> HashAlgorithm option" where
  "getHashAlgorithm b MD5 = ([], Some OSSLMD5)"
| "getHashAlgorithm b SHA1 = ([], Some OSSLSHA1)"
| "getHashAlgorithm b SHA224 = ([], Some OSSLSHA224)"
| "getHashAlgorithm b SHA256 = ([], Some OSSLSHA256)"
| "getHashAlgorithm b SHA384 = ([], Some OSSLSHA384)"
| "getHashAlgorithm b SHA512 = ([], Some OSSLSHA512)"
| "getHashAlgorithm b HashAlgo_GOST =
     (if WITH_GOST b then ([], Some OSSLGOSTR3411) else (unknown_algorithm, None))"
| "getHashAlgorithm b _ = (unknown_algorithm, None)"

fun getMacAlgorithm :: "build \<Rightarrow> MacAlgo \<Rightarrow> event list \<times> MacAlgorithm option" where
  "getMacAlgorithm b HMAC_MD5 = ([], Some OSSLHMACMD5)"
| "getMacAlgorithm b HMAC_SHA1 = ([], Some OSSLHMACSHA1)"
| "getMacAlgorithm b HMAC_SHA224 = ([], Some OSSLHMACSHA224)"
| "getMacAlgorithm b HMAC_SHA256 = ([], Some OSSLHMACSHA256)"
| "getMacAlgorithm b HMAC_SHA384 = ([], Some OSSLHMACSHA384)"
| "getMacAlgorithm b HMAC_SHA512 = ([], Some OSSLHMACSHA512)"
| "getMacAlgorithm b HMAC_GOST =
     (if WITH_GOST b then ([], Some OSSLHMACGOSTR3411) else (unknown_algorithm, None))"
| "getMacAlgorithm b CMAC_DES = ([], Some OSSLCMACDES)"
| "getMacAlgorithm b CMAC_AES = ([], Some OSSLCMACAES)"
| "getMacAlgorithm b _ = (unknown_algorithm, None)"

section \<open>Sample runs\<close>

text \<open>A process in which nothing has been set up yet.\<close>

definition world_initial :: world where
  "world_initial =
     \<lparr>nlocks = 0, locks = [], handle = None, info = None, tcti = None,
      FipsSelfTestStatus = False, instance_p = None, locking_callback = None, trace = []\<rparr>"

definition members_raw :: factory where
  "members_raw =
     \<lparr>setLockingCallback = True, rdrand_engine = Some 90, rng = Some 91, context_p = Some 92,
      eg = Some 93, EVP_GOST_34_11 = Some 94\<rparr>"

text \<open>An environment in which every call succeeds: the plugin is found under the name
  formed by the naming convention, and its initialiser asks for 64 bytes.\<close>

definition env_ok :: env where
  "env_ok =
     \<lparr>dlopen_ret = (\<lambda>p. if p = ''libtss2-tcti-tabrmd.so.0'' then Some 10 else None),
      tcti_info_ret = (\<lambda>h. Some 11),
      init_size_ret = (\<lambda>i. (0, 64)),
      calloc_ret = (\<lambda>n. Some 12),
      init_ctx_ret = (\<lambda>i buf. 0),
      CRYPTO_num_locks_ret = 2,
      getMutex_ret = (\<lambda>i. 20 + i),
      FIPS_mode_ret = False,
      FIPS_mode_set_ret = 1,
      ENGINE_by_id_ret = (\<lambda>n. if n = ''rdrand'' then Some 30 else Some 31),
      ENGINE_init_ret = (\<lambda>g. 1),
      ENGINE_set_default_ret = (\<lambda>g. 1),
      new_OSSLRNG_ret = 40,
      Tss2_Sys_GetContextSize_ret = 128,
      calloc_context_ret = (\<lambda>n. Some 50),
      Tss2_Sys_Initialize_ret = 0,
      ENGINE_get_digest_ret = (\<lambda>g. Some 60),
      ENGINE_register_pkey_asn1_meths_ret = (\<lambda>g. 1),
      ENGINE_ctrl_cmd_string_ret = (\<lambda>g. 1),
      Tss2_Sys_GetTctiContext_ret = (\<lambda>c. (0, Some 12)),
      raw_members = members_raw\<rparr>"

definition build_legacy_gost :: build where
  "build_legacy_gost =
     \<lparr>legacy_locking = True, WITH_FIPS = False, WITH_GOST = True, WITH_ECC = True,
      WITH_EDDSA = False\<rparr>"

text \<open>The same process after a successful load of the transport.\<close>

definition world_loaded :: world where
  "world_loaded = world_initial\<lparr>handle := Some 10, info := Some 11, tcti := Some 12\<rparr>"

text \<open>A process with a live pool of two mutexes.\<close>

definition world_pool :: world where
  "world_pool = world_initial\<lparr>nlocks := 2, locks := [20, 21]\<rparr>"

text \<open>A process in which another component has installed its locking callback.\<close>

definition world_foreign :: world where
  "world_foreign = world_initial\<lparr>locking_callback := Some (Foreign_callback 1)\<rparr>"

text \<open>Environments in which the transport bring-up fails: no plugin can be opened; the
  sizing call of the initialiser fails; the initialising call fails.\<close>

definition env_no_plugin :: env where
  "env_no_plugin = env_ok\<lparr>dlopen_ret := (\<lambda>p. None)\<rparr>"

definition env_sizing_fails :: env where
  "env_sizing_fails = env_ok\<lparr>init_size_ret := (\<lambda>i. (1, 0))\<rparr>"

definition env_init_fails :: env where
  "env_init_fails = env_ok\<lparr>init_ctx_ret := (\<lambda>i buf. 1)\<rparr>"

section \<open>Basic facts\<close>

lemma emit_fields [simp]:
  "trace (emit es w) = trace w @ es"
  "nlocks (emit es w) = nlocks w"
  "locks (emit es w) = locks w"
  "handle (emit es w) = handle w"
  "info (emit es w) = info w"
  "tcti (emit es w) = tcti w"
  "FipsSelfTestStatus (emit es w) = FipsSelfTestStatus w"
  "instance_p (emit es w) = instance_p w"
  "locking_callback (emit es w) = locking_callback w"
  by (simp_all add: emit_def)

lemma emit_Nil [simp]: "emit [] w = w"
  by (simp add: emit_def)

lemma emit_emit [simp]: "emit es (emit ds w) = emit (ds @ es) w"
  by (simp add: emit_def)

lemmas ldr_defs =
  tpm2_tcti_ldr_load_def tpm2_tcti_ldr_load_init_def tpm2_tcti_ldr_dlopen_def

text \<open>The loader touches nothing but \<open>handle\<close>, \<open>info\<close> and the trace.\<close>

lemma ldr_load_frame [simp]:
  "nlocks (snd (tpm2_tcti_ldr_load e p w)) = nlocks w"
  "locks (snd (tpm2_tcti_ldr_load e p w)) = locks w"
  "tcti (snd (tpm2_tcti_ldr_load e p w)) = tcti w"
  "FipsSelfTestStatus (snd (tpm2_tcti_ldr_load e p w)) = FipsSelfTestStatus w"
  "instance_p (snd (tpm2_tcti_ldr_load e p w)) = instance_p w"
  "locking_callback (snd (tpm2_tcti_ldr_load e p w)) = locking_callback w"
  by (auto simp: ldr_defs Let_def split: option.splits prod.splits)

lemma ldr_unload_frame [simp]:
  "nlocks (tpm2_tcti_ldr_unload w) = nlocks w"
  "locks (tpm2_tcti_ldr_unload w) = locks w"
  "tcti (tpm2_tcti_ldr_unload w) = tcti w"
  "FipsSelfTestStatus (tpm2_tcti_ldr_unload w) = FipsSelfTestStatus w"
  "instance_p (tpm2_tcti_ldr_unload w) = instance_p w"
  "locking_callback (tpm2_tcti_ldr_unload w) = locking_callback w"
  "trace (tpm2_tcti_ldr_unload w) = trace w"
  "handle (tpm2_tcti_ldr_unload w) = None"
  by (auto simp: tpm2_tcti_ldr_unload_def DISABLE_DLCLOSE_def split: option.splits)

text \<open>A load from the empty loader state, in an environment where every step succeeds at
  the first \<open>dlopen\<close>, returns the initialised buffer.\<close>

lemma ldr_load_succeeds:
  assumes "handle w = None"
    and "dlopen_ret e path = Some h"
    and "tcti_info_ret e h = Some i"
    and "init_size_ret e i = (TPM2_RC_SUCCESS, n)"
    and "calloc_ret e n = Some buf"
    and "init_ctx_ret e i buf = TPM2_RC_SUCCESS"
  shows "tpm2_tcti_ldr_load e path w =
           (Some buf, emit [Dlopen path, Dlsym h, Tcti_info, Tcti_init None, Calloc n,
                            Tcti_init (Some buf)] (w\<lparr>handle := Some h, info := Some i\<rparr>))"
  using assms by (simp add: ldr_defs Let_def emit_def)

lemma and_CRYPTO_LOCK: "(mode AND CRYPTO_LOCK \<noteq> 0) = bit mode 0"
  for mode :: "32 word"
  by (simp add: CRYPTO_LOCK_def and_one_eq bit_0 mod_2_eq_odd)

text \<open>A negative \<open>int\<close>, cast to \<open>unsigned\<close>, is at least \<open>2 ^ 31\<close>.\<close>

lemma negative_int_is_large: "sint n < 0 \<Longrightarrow> 2 ^ 31 \<le> unat n"
  for n :: "32 word"
proof -
  assume "sint n < 0"
  then have "bit n 31"
    using bit_last_iff [of n] by simp
  then have "odd (n div 2 ^ 31)"
    by (simp add: bit_iff_odd)
  then have "n div 2 ^ 31 \<noteq> 0"
    by (metis even_zero)
  then have "unat (n div 2 ^ 31) \<noteq> 0"
    by (simp add: unat_eq_0)
  then have "unat n div 2 ^ 31 \<noteq> 0"
    by (simp add: unat_div)
  then show ?thesis
    by (simp add: div_eq_0_iff not_less)
qed

text \<open>What each part of the constructor and of the destructor leaves alone.\<close>

lemma ctor_multi_thread_fields [simp]:
  "nlocks (ctor_multi_thread e w) = CRYPTO_num_locks_ret e"
  "locks (ctor_multi_thread e w) = map (getMutex_ret e) [0..<unat (CRYPTO_num_locks_ret e)]"
  "instance_p (ctor_multi_thread e w) = instance_p w"
  "locking_callback (ctor_multi_thread e w) = locking_callback w"
  by (simp_all add: ctor_multi_thread_def Let_def)

lemma ctor_locking_callback_fields [simp]:
  "nlocks (snd (ctor_locking_callback fw)) = nlocks (snd fw)"
  "locks (snd (ctor_locking_callback fw)) = locks (snd fw)"
  "instance_p (snd (ctor_locking_callback fw)) = instance_p (snd fw)"
  "locking_callback (snd (ctor_locking_callback fw)) =
     (if locking_callback (snd fw) = None then Some Lock_callback
      else locking_callback (snd fw))"
  "setLockingCallback (fst (ctor_locking_callback fw)) = (locking_callback (snd fw) = None)"
  by (simp_all add: ctor_locking_callback_def Let_def split_beta)

lemma ctor_fips_fields [simp]:
  "nlocks (snd (ctor_fips e w)) = nlocks w"
  "locks (snd (ctor_fips e w)) = locks w"
  "instance_p (snd (ctor_fips e w)) = instance_p w"
  "locking_callback (snd (ctor_fips e w)) = locking_callback w"
  by (simp_all add: ctor_fips_def Let_def)

lemma ctor_rdrand_fields [simp]:
  "nlocks (snd (ctor_rdrand e fw)) = nlocks (snd fw)"
  "locks (snd (ctor_rdrand e fw)) = locks (snd fw)"
  "instance_p (snd (ctor_rdrand e fw)) = instance_p (snd fw)"
  "locking_callback (snd (ctor_rdrand e fw)) = locking_callback (snd fw)"
  "setLockingCallback (fst (ctor_rdrand e fw)) = setLockingCallback (fst fw)"
  by (simp_all add: ctor_rdrand_def Let_def split_beta split: option.splits)

lemma ctor_rng_fields [simp]:
  "nlocks (snd (ctor_rng e fw)) = nlocks (snd fw)"
  "locks (snd (ctor_rng e fw)) = locks (snd fw)"
  "instance_p (snd (ctor_rng e fw)) = instance_p (snd fw)"
  "locking_callback (snd (ctor_rng e fw)) = locking_callback (snd fw)"
  "setLockingCallback (fst (ctor_rng e fw)) = setLockingCallback (fst fw)"
  "rng (fst (ctor_rng e fw)) = Some (new_OSSLRNG_ret e)"
  by (simp_all add: ctor_rng_def Let_def split_beta)

lemma ctor_tpm_fields [simp]:
  "nlocks (snd (snd (ctor_tpm e fw))) = nlocks (snd fw)"
  "locks (snd (snd (ctor_tpm e fw))) = locks (snd fw)"
  "instance_p (snd (snd (ctor_tpm e fw))) = instance_p (snd fw)"
  "locking_callback (snd (snd (ctor_tpm e fw))) = locking_callback (snd fw)"
  "setLockingCallback (fst (snd (ctor_tpm e fw))) = setLockingCallback (fst fw)"
  "rng (fst (snd (ctor_tpm e fw))) = rng (fst fw)"
  by (simp_all add: ctor_tpm_def Let_def split_beta split: option.splits)

lemma ctor_gost_fields [simp]:
  "nlocks (snd (ctor_gost b e fw)) = nlocks (snd fw)"
  "locks (snd (ctor_gost b e fw)) = locks (snd fw)"
  "instance_p (snd (ctor_gost b e fw)) = instance_p (snd fw)"
  "locking_callback (snd (ctor_gost b e fw)) = locking_callback (snd fw)"
  "setLockingCallback (fst (ctor_gost b e fw)) = setLockingCallback (fst fw)"
  "rng (fst (ctor_gost b e fw)) = rng (fst fw)"
  by (simp_all add: ctor_gost_def ctor_gost_err_def Let_def split_beta split: option.splits)

lemma ctor_software_fields [simp]:
  "nlocks (snd (snd (ctor_software b e w))) = CRYPTO_num_locks_ret e"
  "locks (snd (snd (ctor_software b e w))) =
     map (getMutex_ret e) [0..<unat (CRYPTO_num_locks_ret e)]"
  "instance_p (snd (snd (ctor_software b e w))) = instance_p w"
  "locking_callback (snd (snd (ctor_software b e w))) =
     (if legacy_locking b \<and> locking_callback w = None then Some Lock_callback
      else locking_callback w)"
  by (simp_all add: ctor_software_def Let_def split_beta)

lemma ctor_software_flag:
  "legacy_locking b \<Longrightarrow>
     setLockingCallback (fst (snd (ctor_software b e w))) = (locking_callback w = None)"
  by (simp add: ctor_software_def Let_def split_beta)

lemma ctor_software_rng:
  "fst (ctor_software b e w) \<Longrightarrow>
     rng (fst (snd (ctor_software b e w))) = Some (new_OSSLRNG_ret e)"
  by (simp add: ctor_software_def Let_def split_beta split: if_splits)

lemma ctor_fields [simp]:
  "nlocks (snd (OSSLCryptoFactory_ctor b e w)) = CRYPTO_num_locks_ret e"
  "locks (snd (OSSLCryptoFactory_ctor b e w)) =
     map (getMutex_ret e) [0..<unat (CRYPTO_num_locks_ret e)]"
  "instance_p (snd (OSSLCryptoFactory_ctor b e w)) = instance_p w"
  "locking_callback (snd (OSSLCryptoFactory_ctor b e w)) =
     (if legacy_locking b \<and> locking_callback w = None then Some Lock_callback
      else locking_callback w)"
  by (simp_all add: OSSLCryptoFactory_ctor_def Let_def split_beta)

lemma ctor_flag:
  "legacy_locking b \<Longrightarrow>
     setLockingCallback (fst (OSSLCryptoFactory_ctor b e w)) = (locking_callback w = None)"
  by (simp add: OSSLCryptoFactory_ctor_def Let_def split_beta ctor_software_flag)

lemma dtor_parts_fields [simp]:
  "nlocks (dtor_tpm e f w) = nlocks w"
  "locks (dtor_tpm e f w) = locks w"
  "instance_p (dtor_tpm e f w) = instance_p w"
  "locking_callback (dtor_tpm e f w) = locking_callback w"
  "nlocks (dtor_gost f w) = nlocks w"
  "locks (dtor_gost f w) = locks w"
  "instance_p (dtor_gost f w) = instance_p w"
  "locking_callback (dtor_gost f w) = locking_callback w"
  "nlocks (dtor_rng f w) = nlocks w"
  "locks (dtor_rng f w) = locks w"
  "instance_p (dtor_rng f w) = instance_p w"
  "locking_callback (dtor_rng f w) = locking_callback w"
  "nlocks (dtor_locking_callback f w) = nlocks w"
  "locks (dtor_locking_callback f w) = locks w"
  "instance_p (dtor_locking_callback f w) = instance_p w"
  "locking_callback (dtor_locking_callback f w) =
     (if setLockingCallback f then None else locking_callback w)"
  by (simp_all add: dtor_tpm_def dtor_gost_def dtor_rng_def dtor_locking_callback_def
      Let_def split_beta split: option.splits)

text \<open>With a live pool the destructor runs to its end.\<close>

lemma dtor_returns:
  assumes "unat (nlocks w) \<le> length (locks w)"
  shows "\<exists>w'. OSSLCryptoFactory_dtor b e f w = Inr w' \<and>
           instance_p w' = instance_p w \<and>
           locking_callback w' =
             (if legacy_locking b \<and> setLockingCallback f then None else locking_callback w)"
  using assms by (simp add: OSSLCryptoFactory_dtor_def dtor_recycle_locks_def Let_def)

lemma new_events_emit:
  "trace w1 = trace w0 @ xs \<Longrightarrow> new_events w0 (emit es w1) = xs @ es"
  by (simp add: new_events_def)

lemma ldr_load_trace:
  "trace (snd (tpm2_tcti_ldr_load e p w)) =
     trace w @ new_events w (snd (tpm2_tcti_ldr_load e p w))"
  "Engine_by_id g \<notin> set (new_events w (snd (tpm2_tcti_ldr_load e p w)))"
  by (auto simp: ldr_defs new_events_def Let_def split: option.splits prod.splits)

lemma ctor_gost_trace:
  "trace (snd (ctor_gost b e fw)) = trace (snd fw) @ new_events (snd fw) (snd (ctor_gost b e fw))"
  "Engine_by_id ''gost'' \<in> set (new_events (snd fw) (snd (ctor_gost b e fw)))"
  by (auto simp: ctor_gost_def ctor_gost_err_def new_events_def Let_def split_beta
      split: option.splits)

lemma new_events_append:
  "trace w1 = trace w0 @ xs \<Longrightarrow> trace w2 = trace w1 @ ys \<Longrightarrow> new_events w0 w2 = xs @ ys"
  by (simp add: new_events_def)

lemmas sample_defs =
  env_ok_def env_no_plugin_def env_sizing_fails_def env_init_fails_def world_initial_def
  world_loaded_def build_legacy_gost_def members_raw_def

lemmas ctor_defs =
  OSSLCryptoFactory_ctor_def ctor_software_def ctor_multi_thread_def
  ctor_locking_callback_def ctor_fips_def ctor_rdrand_def ctor_rng_def ctor_tpm_def
  ctor_gost_def ctor_gost_err_def

lemmas const_defs =
  TSS2_TCTI_SO_FORMAT_def PATH_MAX_def TPM2_RC_SUCCESS_def TSS2_RC_SUCCESS_def
  DISABLE_DLCLOSE_def

lemma replicate_two: "replicate 2 x = [x, x]"
  by (simp add: numeral_2_eq_2)


lemma ctor_software_handle [simp]:
  "handle (snd (snd (ctor_software b e w))) = handle w"
  by (simp add: ctor_software_def ctor_multi_thread_def ctor_locking_callback_def
      ctor_fips_def ctor_rdrand_def ctor_rng_def Let_def split_beta split: option.splits)

lemma ctor_gost_tcti [simp]:
  "tcti (snd (ctor_gost b e fw)) = tcti (snd fw)"
  by (simp add: ctor_gost_def ctor_gost_err_def Let_def split_beta split: option.splits)

lemma ctor_tpm_tcti [simp]:
  "tcti (snd (snd (ctor_tpm e fw))) = fst (tpm2_tcti_ldr_load e ''tabrmd'' (snd fw))"
  by (simp add: ctor_tpm_def Let_def split_beta split: option.splits)


lemma dtor_tpm_trace:
  "trace (dtor_tpm e f w) =
     trace w @ [Sys_GetTctiContext (context_p f), Sys_Finalize (context_p f),
                Free (context_p f)] @
       (case (if fst (Tss2_Sys_GetTctiContext_ret e (context_p f)) = TSS2_RC_SUCCESS
              then snd (Tss2_Sys_GetTctiContext_ret e (context_p f)) else None) of
          None \<Rightarrow> []
        | Some tc \<Rightarrow> [Tcti_Finalize tc, Free (Some tc)]) @
       [Ldr_unload (handle w)]"
  by (auto simp: dtor_tpm_def Let_def split_beta split: option.splits)

lemma dtor_parts_handle [simp]:
  "handle (dtor_tpm e f w) = None"
  "tcti (dtor_tpm e f w) = tcti w"
  "handle (dtor_gost f w) = handle w"
  "handle (dtor_rng f w) = handle w"
  "handle (dtor_locking_callback f w) = handle w"
  by (simp_all add: dtor_tpm_def dtor_gost_def dtor_rng_def dtor_locking_callback_def
      Let_def split_beta split: option.splits)

text \<open>With a live pool the destructor runs to its end; what it leaves behind.\<close>

lemma dtor_result:
  assumes "unat (nlocks w) \<le> length (locks w)"
  shows "\<exists>w'. OSSLCryptoFactory_dtor b e f w = Inr w' \<and>
           handle w' = None \<and>
           instance_p w' = instance_p w \<and>
           locking_callback w' =
             (if legacy_locking b \<and> setLockingCallback f then None else locking_callback w) \<and>
           trace w' = trace (dtor_tpm e f w) @
             (case (if WITH_GOST b then eg f else None) of
                None \<Rightarrow> [] | Some g \<Rightarrow> [Engine_finish g, Engine_free g]) @
             Delete_rng (rng f) #
             (if legacy_locking b \<and> setLockingCallback f
              then [Crypto_set_locking_callback None] else []) @
             map RecycleMutex (take (unat (nlocks w)) (locks w)) @ [Delete_locks]"
  using assms
  by (simp add: OSSLCryptoFactory_dtor_def dtor_recycle_locks_def dtor_gost_def dtor_rng_def
      dtor_locking_callback_def Let_def split: option.splits)

lemma ctor_rng:
  "fst (ctor_software b e w) \<Longrightarrow>
     rng (fst (OSSLCryptoFactory_ctor b e w)) = Some (new_OSSLRNG_ret e)"
  by (simp add: OSSLCryptoFactory_ctor_def Let_def split_beta ctor_software_rng)


section \<open>The transport plugin loader: properties\<close>

text \<open>
  C4. A call of \<open>tpm2_tcti_ldr_load\<close> while a transport is active (the plugin handle is
  not null) returns no context and leaves the whole process state as it was: the handle,
  the cached info pointer, the transport context, and the trace (nothing is opened,
  closed or logged).
\<close>

theorem load_while_active:
  "handle w \<noteq> None \<Longrightarrow> tpm2_tcti_ldr_load e path w = (None, w)"
  by (simp add: tpm2_tcti_ldr_load_def)

theorem load_while_active_witness:
  "handle world_loaded \<noteq> None \<and>
   tpm2_tcti_ldr_load env_ok ''tabrmd'' world_loaded = (None, world_loaded)"
proof -
  have h: "handle world_loaded \<noteq> None"
    by (simp add: world_loaded_def)
  show ?thesis
    using h load_while_active [OF h, of env_ok "''tabrmd''"] by simp
qed

text \<open>
  C9. \<open>tpm2_tcti_ldr_unload\<close> is idempotent: without a handle it changes nothing, and
  unloading twice is unloading once. It never calls \<open>dlclose\<close> (the trace is unchanged),
  yet it clears the handle, and with it the info pointer, so that a later load in an
  environment where every step succeeds returns a context.
\<close>

theorem unload_idempotent:
  "(handle w = None \<longrightarrow> tpm2_tcti_ldr_unload w = w) \<and>
   tpm2_tcti_ldr_unload (tpm2_tcti_ldr_unload w) = tpm2_tcti_ldr_unload w \<and>
   trace (tpm2_tcti_ldr_unload w) = trace w \<and>
   handle (tpm2_tcti_ldr_unload w) = None \<and>
   (handle w \<noteq> None \<longrightarrow> info (tpm2_tcti_ldr_unload w) = None) \<and>
   (dlopen_ret e path = Some h \<and> tcti_info_ret e h = Some i \<and>
    init_size_ret e i = (TPM2_RC_SUCCESS, n) \<and> calloc_ret e n = Some buf \<and>
    init_ctx_ret e i buf = TPM2_RC_SUCCESS \<longrightarrow>
      fst (tpm2_tcti_ldr_load e path (tpm2_tcti_ldr_unload w)) = Some buf)"
proof -
  have idem: "tpm2_tcti_ldr_unload (tpm2_tcti_ldr_unload w) = tpm2_tcti_ldr_unload w"
    by (simp add: tpm2_tcti_ldr_unload_def split: option.splits)
  have inf: "handle w \<noteq> None \<longrightarrow> info (tpm2_tcti_ldr_unload w) = None"
    by (auto simp: tpm2_tcti_ldr_unload_def split: option.splits)
  have noop: "handle w = None \<longrightarrow> tpm2_tcti_ldr_unload w = w"
    by (simp add: tpm2_tcti_ldr_unload_def)
  have later: "fst (tpm2_tcti_ldr_load e path (tpm2_tcti_ldr_unload w)) = Some buf"
    if "dlopen_ret e path = Some h" "tcti_info_ret e h = Some i"
      "init_size_ret e i = (TPM2_RC_SUCCESS, n)" "calloc_ret e n = Some buf"
      "init_ctx_ret e i buf = TPM2_RC_SUCCESS"
    using ldr_load_succeeds [OF _ that, of "tpm2_tcti_ldr_unload w"] by simp
  from idem inf noop later show ?thesis by simp
qed

theorem unload_idempotent_witness:
  "handle world_loaded \<noteq> None \<and>
   tpm2_tcti_ldr_unload world_loaded = world_initial\<lparr>tcti := Some 12\<rparr> \<and>
   tpm2_tcti_ldr_unload (tpm2_tcti_ldr_unload world_loaded) =
     tpm2_tcti_ldr_unload world_loaded \<and>
   fst (tpm2_tcti_ldr_load env_ok ''libtss2-tcti-tabrmd.so.0''
          (tpm2_tcti_ldr_unload world_loaded)) = Some 12"
  using unload_idempotent
    [of world_loaded env_ok "''libtss2-tcti-tabrmd.so.0''" 10 11 64 12]
  by (simp add: world_loaded_def world_initial_def env_ok_def TPM2_RC_SUCCESS_def
      tpm2_tcti_ldr_unload_def DISABLE_DLCLOSE_def)

text \<open>
  C10. For every transport name, \<open>tpm2_tcti_ldr_is_tcti_present\<close> leaves the handle, the
  info pointer and the transport context as they were; the process state changes in its
  trace only. A name that fits the path buffer is opened under the naming convention and,
  when the open succeeded, closed at once; the result says whether the open succeeded.
\<close>

theorem is_tcti_present_frame:
  "tpm2_tcti_ldr_is_tcti_present e name w =
     (length (TSS2_TCTI_SO_FORMAT name) < PATH_MAX \<and>
        dlopen_ret e (TSS2_TCTI_SO_FORMAT name) \<noteq> None,
      w\<lparr>trace := trace w @
           (if length (TSS2_TCTI_SO_FORMAT name) < PATH_MAX then
              Dlopen (TSS2_TCTI_SO_FORMAT name) #
                (case dlopen_ret e (TSS2_TCTI_SO_FORMAT name) of
                   None \<Rightarrow> [] | Some h \<Rightarrow> [Dlclose h])
            else [])\<rparr>) \<and>
   handle (snd (tpm2_tcti_ldr_is_tcti_present e name w)) = handle w \<and>
   info (snd (tpm2_tcti_ldr_is_tcti_present e name w)) = info w \<and>
   tcti (snd (tpm2_tcti_ldr_is_tcti_present e name w)) = tcti w"
  by (auto simp: tpm2_tcti_ldr_is_tcti_present_def tpm2_tcti_ldr_dlopen_def Let_def emit_def
      split: option.splits)

theorem is_tcti_present_frame_witness:
  "tpm2_tcti_ldr_is_tcti_present env_ok ''tabrmd'' world_loaded =
     (True, world_loaded\<lparr>trace := [Dlopen ''libtss2-tcti-tabrmd.so.0'', Dlclose 10]\<rparr>) \<and>
   tpm2_tcti_ldr_is_tcti_present env_ok ''device'' world_loaded =
     (False, world_loaded\<lparr>trace := [Dlopen ''libtss2-tcti-device.so.0'']\<rparr>)"
  using is_tcti_present_frame [of env_ok "''tabrmd''" world_loaded]
    is_tcti_present_frame [of env_ok "''device''" world_loaded]
  by (simp add: world_loaded_def world_initial_def env_ok_def TSS2_TCTI_SO_FORMAT_def
      PATH_MAX_def)

text \<open>
  C2. A load whose sizing call or whose initialising call fails frees the buffer, closes
  the plugin and returns no context, but it leaves \<open>handle\<close> (and \<open>info\<close>) set: the
  loader state does not return to empty, and a following load in an environment where
  every step succeeds is refused by the guard, whereas the same load from the empty state
  returns a context.
\<close>

theorem load_failure_keeps_handle:
  "tpm2_tcti_ldr_load env_sizing_fails ''tabrmd'' world_initial =
     (None, world_initial\<lparr>handle := Some 10, info := Some 11,
        trace := [Dlopen ''tabrmd'', Dlopen ''libtss2-tcti-tabrmd.so.0'', Dlsym 10, Tcti_info,
                  Tcti_init None,
                  ERROR_MSG ''tcti init setup routine failed for library: \"%s\"'',
                  Free None, Dlclose 10]\<rparr>) \<and>
   tpm2_tcti_ldr_load env_init_fails ''tabrmd'' world_initial =
     (None, world_initial\<lparr>handle := Some 10, info := Some 11,
        trace := [Dlopen ''tabrmd'', Dlopen ''libtss2-tcti-tabrmd.so.0'', Dlsym 10, Tcti_info,
                  Tcti_init None, Calloc 64, Tcti_init (Some 12),
                  ERROR_MSG ''tcti init allocation routine failed for library: \"%s\"'',
                  Free (Some 12), Dlclose 10]\<rparr>) \<and>
   fst (tpm2_tcti_ldr_load env_ok ''tabrmd''
          (snd (tpm2_tcti_ldr_load env_sizing_fails ''tabrmd'' world_initial))) = None \<and>
   fst (tpm2_tcti_ldr_load env_ok ''tabrmd''
          (snd (tpm2_tcti_ldr_load env_init_fails ''tabrmd'' world_initial))) = None \<and>
   fst (tpm2_tcti_ldr_load env_ok ''tabrmd'' world_initial) = Some 12"
  by (simp add: sample_defs ldr_defs const_defs emit_def Let_def)

text \<open>
  Once the first \<open>dlopen\<close> has succeeded, every failing load leaves the handle set, and
  every later load, whatever its environment and path, is refused by the guard.
\<close>

lemma ldr_load_failure_blocks:
  assumes "handle w = None"
    and "dlopen_ret e path = Some h"
    and "fst (tpm2_tcti_ldr_load e path w) = None"
  shows "handle (snd (tpm2_tcti_ldr_load e path w)) = Some h"
    and "tpm2_tcti_ldr_load e' path' (snd (tpm2_tcti_ldr_load e path w)) =
           (None, snd (tpm2_tcti_ldr_load e path w))"
proof -
  show h: "handle (snd (tpm2_tcti_ldr_load e path w)) = Some h"
    using assms
    by (auto simp: ldr_defs Let_def split: option.splits prod.splits if_splits)
  show "tpm2_tcti_ldr_load e' path' (snd (tpm2_tcti_ldr_load e path w)) =
           (None, snd (tpm2_tcti_ldr_load e path w))"
    using h by (simp add: tpm2_tcti_ldr_load_def [of e' path'])
qed

section \<open>The locking callback: properties\<close>

text \<open>
  C5. With an index that, cast to unsigned, is not below \<open>nlocks\<close> the locking callback
  only logs and returns; this is the case for every negative index when the pool has at
  most \<open>2 ^ 31\<close> entries. With an index in range, while the pool is live (\<open>locks\<close> has
  \<open>nlocks\<close> entries, as the constructor leaves it), the read stays inside the pool, and
  the callback locks the mutex at that index when the acquire bit of the mode is set and
  unlocks it otherwise.
\<close>

theorem lock_callback_checked:
  "(nlocks w \<le> n \<longrightarrow>
      lock_callback mode n file line w =
        Inr (emit [ERROR_MSG ''out of range [0..%u[ lock %d at %s:%d''] w)) \<and>
   (sint n < 0 \<and> unat (nlocks w) \<le> 2 ^ 31 \<longrightarrow> nlocks w \<le> n) \<and>
   (n < nlocks w \<and> length (locks w) = unat (nlocks w) \<longrightarrow>
      unat n < length (locks w) \<and>
      lock_callback mode n file line w =
        Inr (emit [if bit mode 0 then Mutex_lock (locks w ! unat n)
                   else Mutex_unlock (locks w ! unat n)] w))"
proof -
  have outside: "lock_callback mode n file line w =
        Inr (emit [ERROR_MSG ''out of range [0..%u[ lock %d at %s:%d''] w)"
    if "nlocks w \<le> n"
    using that by (simp add: lock_callback_def)
  have negative: "nlocks w \<le> n" if "sint n < 0" "unat (nlocks w) \<le> 2 ^ 31"
    using negative_int_is_large [OF that(1)] that(2) by (simp add: word_le_nat_alt)
  have inside: "unat n < length (locks w) \<and>
      lock_callback mode n file line w =
        Inr (emit [if bit mode 0 then Mutex_lock (locks w ! unat n)
                   else Mutex_unlock (locks w ! unat n)] w)"
    if "n < nlocks w" "length (locks w) = unat (nlocks w)"
  proof -
    from that have idx: "unat n < length (locks w)"
      by (simp add: word_less_nat_alt)
    from that(1) have "\<not> nlocks w \<le> n"
      by simp
    with idx show ?thesis
      by (simp add: lock_callback_def and_CRYPTO_LOCK Let_def)
  qed
  from outside negative inside show ?thesis
    by blast
qed

theorem lock_callback_checked_witness:
  "(1 :: 32 word) < nlocks world_pool \<and>
   length (locks world_pool) = unat (nlocks world_pool) \<and>
   lock_callback 1 1 ''f.c'' 7 world_pool = Inr (emit [Mutex_lock 21] world_pool) \<and>
   lock_callback 2 0 ''f.c'' 7 world_pool = Inr (emit [Mutex_unlock 20] world_pool) \<and>
   nlocks world_pool \<le> 2 \<and>
   lock_callback 1 2 ''f.c'' 7 world_pool =
     Inr (emit [ERROR_MSG ''out of range [0..%u[ lock %d at %s:%d''] world_pool) \<and>
   sint (4294967295 :: 32 word) < 0 \<and>
   lock_callback 1 4294967295 ''f.c'' 7 world_pool =
     Inr (emit [ERROR_MSG ''out of range [0..%u[ lock %d at %s:%d''] world_pool)"
proof -
  have pool: "length (locks world_pool) = unat (nlocks world_pool)"
    and nl: "nlocks world_pool = 2" and l: "locks world_pool = [20, 21]"
    by (simp_all add: world_pool_def)
  show ?thesis
    using pool
      lock_callback_checked [of world_pool 1 1 "''f.c''" 7]
      lock_callback_checked [of world_pool 0 2 "''f.c''" 7]
      lock_callback_checked [of world_pool 2 1 "''f.c''" 7]
      lock_callback_checked [of world_pool 4294967295 1 "''f.c''" 7]
    by (simp add: nl l)
qed

text \<open>
  C6. In a build with the legacy locking interface the constructor installs
  \<open>lock_callback\<close> exactly when the slot is empty and records in \<open>setLockingCallback\<close>
  whether it did; in any other build it leaves the slot alone. The destructor, given a
  live pool, runs to its end and clears the slot exactly when the build is a legacy one
  and the flag is set. So a callback that another component installed before construction
  survives the constructor and the destructor of that object.
\<close>

theorem locking_callback_conditional:
  "locking_callback (snd (OSSLCryptoFactory_ctor b e w)) =
     (if legacy_locking b \<and> locking_callback w = None then Some Lock_callback
      else locking_callback w) \<and>
   (legacy_locking b \<longrightarrow>
      setLockingCallback (fst (OSSLCryptoFactory_ctor b e w)) = (locking_callback w = None)) \<and>
   (unat (nlocks v) \<le> length (locks v) \<longrightarrow>
      (\<exists>v'. OSSLCryptoFactory_dtor b e f v = Inr v' \<and>
            locking_callback v' =
              (if legacy_locking b \<and> setLockingCallback f then None
               else locking_callback v))) \<and>
   (locking_callback w = Some (Foreign_callback k) \<longrightarrow>
      locking_callback (snd (OSSLCryptoFactory_ctor b e w)) = Some (Foreign_callback k) \<and>
      (\<exists>v'. OSSLCryptoFactory_dtor b e' (fst (OSSLCryptoFactory_ctor b e w))
               (snd (OSSLCryptoFactory_ctor b e w)) = Inr v' \<and>
            locking_callback v' = Some (Foreign_callback k)))"
proof -
  let ?f = "fst (OSSLCryptoFactory_ctor b e w)" and ?w = "snd (OSSLCryptoFactory_ctor b e w)"
  have pool: "unat (nlocks ?w) \<le> length (locks ?w)"
    by simp
  have foreign: "\<exists>v'. OSSLCryptoFactory_dtor b e' ?f ?w = Inr v' \<and>
            locking_callback v' = Some (Foreign_callback k)"
    if "locking_callback w = Some (Foreign_callback k)"
    using dtor_returns [OF pool, of b e' ?f] that by (auto simp: ctor_flag)
  show ?thesis
    using dtor_returns [of v b e f] foreign by (auto simp: ctor_flag)
qed

theorem locking_callback_conditional_witness:
  "legacy_locking build_legacy_gost \<and>
   locking_callback (snd (OSSLCryptoFactory_ctor build_legacy_gost env_ok world_initial)) =
     Some Lock_callback \<and>
   setLockingCallback (fst (OSSLCryptoFactory_ctor build_legacy_gost env_ok world_initial)) \<and>
   locking_callback world_foreign = Some (Foreign_callback 1) \<and>
   locking_callback (snd (OSSLCryptoFactory_ctor build_legacy_gost env_ok world_foreign)) =
     Some (Foreign_callback 1) \<and>
   \<not> setLockingCallback (fst (OSSLCryptoFactory_ctor build_legacy_gost env_ok world_foreign)) \<and>
   (\<exists>v'. OSSLCryptoFactory_dtor build_legacy_gost env_ok
            (fst (OSSLCryptoFactory_ctor build_legacy_gost env_ok world_foreign))
            (snd (OSSLCryptoFactory_ctor build_legacy_gost env_ok world_foreign)) = Inr v' \<and>
         locking_callback v' = Some (Foreign_callback 1)) \<and>
   unat (nlocks world_pool) \<le> length (locks world_pool) \<and>
   (\<exists>v'. OSSLCryptoFactory_dtor build_legacy_gost env_ok members_raw world_pool = Inr v' \<and>
         locking_callback v' = None)"
  using locking_callback_conditional
      [of build_legacy_gost env_ok world_initial world_pool members_raw 1 env_ok]
    locking_callback_conditional
      [of build_legacy_gost env_ok world_foreign world_pool members_raw 1 env_ok]
  by (simp add: build_legacy_gost_def world_foreign_def world_initial_def world_pool_def
      members_raw_def)

section \<open>The constructor: properties\<close>

text \<open>
  C1, as stated, does not hold. In a build with GOST, a run in which no transport plugin
  can be opened logs the failure and returns from the constructor: the trace ends with
  the message of the failed hardware bring-up, and the GOST engine is never looked up.
\<close>

theorem ctor_skips_gost_counterexample:
  "WITH_GOST build_legacy_gost \<and>
   trace (snd (OSSLCryptoFactory_ctor build_legacy_gost env_no_plugin world_initial)) =
     [GetMutex, GetMutex, Crypto_set_locking_callback (Some Lock_callback),
      OpenSSL_add_all_algorithms, Engine_load_rdrand, Engine_by_id ''rdrand'',
      Engine_init 30, Engine_set_default 30, New_OSSLRNG,
      Dlopen ''tabrmd'', Dlopen ''libtss2-tcti-tabrmd.so.0'',
      ERROR_MSG ''Could not dlopen library: \"%s\"'',
      ERROR_MSG ''OSSLCryptoFactory: TPM2 Failed!''] \<and>
   Engine_by_id ''gost'' \<notin>
     set (trace (snd (OSSLCryptoFactory_ctor build_legacy_gost env_no_plugin world_initial)))"
  by (simp add: sample_defs ctor_defs ldr_defs const_defs emit_def Let_def replicate_two)

text \<open>
  C1, amended. When the parts before the hardware bring-up have run (the random generator
  is instantiated) and the transport load, the allocation of the command context or its
  initialisation fails, the failure is logged and the constructor returns there: the GOST
  engine is not brought up. After a failed load the transport context is null, after a
  failed allocation the command context is null. When the hardware bring-up succeeds, a
  build with GOST goes on to the GOST engine. A failure to enter FIPS mode ends
  construction as well, before the random generator is instantiated.
\<close>

theorem ctor_hardware_failure_returns:
  "(ctor_software b e w = (True, f0, w0) \<longrightarrow>
      (let r = OSSLCryptoFactory_ctor b e w;
           es = new_events w0 (snd r);
           t = fst (tpm2_tcti_ldr_load e ''tabrmd'' w0);
           c = calloc_context_ret e (Tss2_Sys_GetContextSize_ret e)
       in trace (snd r) = trace w0 @ es \<and>
          rng (fst r) = Some (new_OSSLRNG_ret e) \<and>
          (t = None \<longrightarrow>
             last es = ERROR_MSG ''OSSLCryptoFactory: TPM2 Failed!'' \<and>
             tcti (snd r) = None \<and> Engine_by_id ''gost'' \<notin> set es) \<and>
          (t \<noteq> None \<and> c = None \<longrightarrow>
             last es = ERROR_MSG ''OSSLCryptoFactory: TPM2 Failed 2!'' \<and>
             context_p (fst r) = None \<and> Engine_by_id ''gost'' \<notin> set es) \<and>
          (t \<noteq> None \<and> c \<noteq> None \<and> Tss2_Sys_Initialize_ret e \<noteq> TSS2_RC_SUCCESS \<longrightarrow>
             ERROR_MSG ''OSSLCryptoFactory: TPM2 Failed 3!'' \<in> set es \<and>
             Engine_by_id ''gost'' \<notin> set es) \<and>
          (t \<noteq> None \<and> c \<noteq> None \<and> Tss2_Sys_Initialize_ret e = TSS2_RC_SUCCESS \<and>
           WITH_GOST b \<longrightarrow>
             Engine_by_id ''gost'' \<in> set es))) \<and>
   (WITH_FIPS b \<and> \<not> FIPS_mode_ret e \<and> FIPS_mode_set_ret e = 0 \<longrightarrow>
      last (trace (snd (OSSLCryptoFactory_ctor b e w))) =
        ERROR_MSG ''can't enter into FIPS mode'' \<and>
      rng (fst (OSSLCryptoFactory_ctor b e w)) = rng (raw_members e))"
proof -
  have fips: "last (trace (snd (OSSLCryptoFactory_ctor b e w))) =
        ERROR_MSG ''can't enter into FIPS mode'' \<and>
      rng (fst (OSSLCryptoFactory_ctor b e w)) = rng (raw_members e)"
    if "WITH_FIPS b" "\<not> FIPS_mode_ret e" "FIPS_mode_set_ret e = 0"
    using that
    by (simp add: OSSLCryptoFactory_ctor_def ctor_software_def ctor_fips_def
        ctor_locking_callback_def Let_def split_beta)
  have hw: "let r = OSSLCryptoFactory_ctor b e w;
           es = new_events w0 (snd r);
           t = fst (tpm2_tcti_ldr_load e ''tabrmd'' w0);
           c = calloc_context_ret e (Tss2_Sys_GetContextSize_ret e)
       in trace (snd r) = trace w0 @ es \<and>
          rng (fst r) = Some (new_OSSLRNG_ret e) \<and>
          (t = None \<longrightarrow>
             last es = ERROR_MSG ''OSSLCryptoFactory: TPM2 Failed!'' \<and>
             tcti (snd r) = None \<and> Engine_by_id ''gost'' \<notin> set es) \<and>
          (t \<noteq> None \<and> c = None \<longrightarrow>
             last es = ERROR_MSG ''OSSLCryptoFactory: TPM2 Failed 2!'' \<and>
             context_p (fst r) = None \<and> Engine_by_id ''gost'' \<notin> set es) \<and>
          (t \<noteq> None \<and> c \<noteq> None \<and> Tss2_Sys_Initialize_ret e \<noteq> TSS2_RC_SUCCESS \<longrightarrow>
             ERROR_MSG ''OSSLCryptoFactory: TPM2 Failed 3!'' \<in> set es \<and>
             Engine_by_id ''gost'' \<notin> set es) \<and>
          (t \<noteq> None \<and> c \<noteq> None \<and> Tss2_Sys_Initialize_ret e = TSS2_RC_SUCCESS \<and>
           WITH_GOST b \<longrightarrow>
             Engine_by_id ''gost'' \<in> set es)"
    if sw: "ctor_software b e w = (True, f0, w0)"
  proof -
    obtain t w1 where ld: "tpm2_tcti_ldr_load e ''tabrmd'' w0 = (t, w1)"
      by fastforce
    define xs where "xs = new_events w0 w1"
    have tr: "trace w1 = trace w0 @ xs"
      and ng: "Engine_by_id ''gost'' \<notin> set xs"
      using ldr_load_trace(1) [of e "''tabrmd''" w0]
        ldr_load_trace(2) [of "''gost''" w0 e "''tabrmd''"]
      by (simp_all add: ld xs_def)
    have rng0: "rng f0 = Some (new_OSSLRNG_ret e)"
      using ctor_software_rng [of b e w] by (simp add: sw)
    note ctor = OSSLCryptoFactory_ctor_def [of b e w, unfolded sw, simplified]
    show ?thesis
    proof (cases t)
      case None
      then show ?thesis
        using tr ng rng0 by (simp add: ctor ctor_tpm_def ld Let_def new_events_def)
    next
      case (Some tc)
      note t = this
      show ?thesis
      proof (cases "calloc_context_ret e (Tss2_Sys_GetContextSize_ret e)")
        case None
        then show ?thesis
          using tr ng rng0 t by (simp add: ctor ctor_tpm_def ld Let_def new_events_def)
      next
        case (Some c)
        note c = this
        show ?thesis
        proof (cases "Tss2_Sys_Initialize_ret e = TSS2_RC_SUCCESS")
          case False
          then show ?thesis
            using tr ng rng0 t c by (simp add: ctor ctor_tpm_def ld Let_def new_events_def)
        next
          case True
          let ?f = "f0\<lparr>context_p := Some c\<rparr>"
          let ?w = "emit [Calloc (Tss2_Sys_GetContextSize_ret e), Sys_Initialize c tc]
                      (w1\<lparr>tcti := Some tc\<rparr>)"
          have tpm: "ctor_tpm e (f0, w0) = (True, ?f, ?w)"
            using t c True by (simp add: ctor_tpm_def ld Let_def)
          have trw: "trace ?w = trace w0 @ xs @
                       [Calloc (Tss2_Sys_GetContextSize_ret e), Sys_Initialize c tc]"
            using tr by simp
          show ?thesis
          proof (cases "WITH_GOST b")
            case False
            then show ?thesis
              using trw rng0 t c True by (simp add: ctor tpm ld new_events_def)
          next
            case gost: True
            have r: "OSSLCryptoFactory_ctor b e w = ctor_gost b e (?f, ?w)"
              using gost by (simp add: ctor tpm)
            define ys where "ys = new_events ?w (snd (ctor_gost b e (?f, ?w)))"
            have trg: "trace (snd (ctor_gost b e (?f, ?w))) = trace ?w @ ys"
              and ing: "Engine_by_id ''gost'' \<in> set ys"
              using ctor_gost_trace(1) [of b e "(?f, ?w)"] ctor_gost_trace(2) [of "(?f, ?w)" b e]
              by (simp_all add: ys_def)
            have ne: "new_events w0 (snd (ctor_gost b e (?f, ?w))) =
                  (xs @ [Calloc (Tss2_Sys_GetContextSize_ret e), Sys_Initialize c tc]) @ ys"
              by (rule new_events_append [OF trw trg])
            have "rng (fst (ctor_gost b e (?f, ?w))) = Some (new_OSSLRNG_ret e)"
              using rng0 by simp
            then show ?thesis
              using t c True ing trg trw by (simp add: r ld ne Let_def)
          qed
        qed
      qed
    qed
  qed
  show ?thesis
    using fips hw by blast
qed

theorem ctor_hardware_failure_returns_witness:
  "ctor_software build_legacy_gost env_no_plugin world_initial =
     (True, fst (snd (ctor_software build_legacy_gost env_no_plugin world_initial)),
      snd (snd (ctor_software build_legacy_gost env_no_plugin world_initial))) \<and>
   fst (tpm2_tcti_ldr_load env_no_plugin ''tabrmd''
          (snd (snd (ctor_software build_legacy_gost env_no_plugin world_initial)))) = None \<and>
   last (new_events (snd (snd (ctor_software build_legacy_gost env_no_plugin world_initial)))
           (snd (OSSLCryptoFactory_ctor build_legacy_gost env_no_plugin world_initial))) =
     ERROR_MSG ''OSSLCryptoFactory: TPM2 Failed!'' \<and>
   Engine_by_id ''gost'' \<notin>
     set (new_events (snd (snd (ctor_software build_legacy_gost env_no_plugin world_initial)))
            (snd (OSSLCryptoFactory_ctor build_legacy_gost env_no_plugin world_initial))) \<and>
   ctor_software build_legacy_gost env_ok world_initial =
     (True, fst (snd (ctor_software build_legacy_gost env_ok world_initial)),
      snd (snd (ctor_software build_legacy_gost env_ok world_initial))) \<and>
   Engine_by_id ''gost'' \<in>
     set (new_events (snd (snd (ctor_software build_legacy_gost env_ok world_initial)))
            (snd (OSSLCryptoFactory_ctor build_legacy_gost env_ok world_initial)))"
proof -
  let ?b = build_legacy_gost
  let ?s = "ctor_software ?b env_no_plugin world_initial"
  let ?s' = "ctor_software ?b env_ok world_initial"
  have go: "fst ?s" and go': "fst ?s'"
    by (simp_all add: sample_defs ctor_software_def ctor_multi_thread_def
        ctor_locking_callback_def ctor_rdrand_def ctor_rng_def Let_def split_beta)
  have sw: "?s = (True, fst (snd ?s), snd (snd ?s))"
    and sw': "?s' = (True, fst (snd ?s'), snd (snd ?s'))"
    using go go' by (simp_all add: prod_eq_iff)
  have nold: "fst (tpm2_tcti_ldr_load env_no_plugin ''tabrmd'' (snd (snd ?s))) = None"
    by (simp add: sample_defs ctor_defs ldr_defs const_defs emit_def Let_def)
  have ld: "fst (tpm2_tcti_ldr_load env_ok ''tabrmd'' (snd (snd ?s'))) \<noteq> None"
    by (simp add: sample_defs ctor_defs ldr_defs const_defs emit_def Let_def)
  have rest: "calloc_context_ret env_ok (Tss2_Sys_GetContextSize_ret env_ok) \<noteq> None"
    "Tss2_Sys_Initialize_ret env_ok = TSS2_RC_SUCCESS" "WITH_GOST ?b"
    by (simp_all add: sample_defs const_defs)
  show ?thesis
    using sw sw' nold ld rest
      ctor_hardware_failure_returns
        [of ?b env_no_plugin world_initial "fst (snd ?s)" "snd (snd ?s)"]
      ctor_hardware_failure_returns
        [of ?b env_ok world_initial "fst (snd ?s')" "snd (snd ?s')"]
    by (simp add: Let_def)
qed

section \<open>The destructor: properties\<close>

text \<open>
  C3. The hardware teardown comes first in the destructor and runs in this order: the
  nested transport context is retrieved from the command context (and taken as absent
  when the retrieval fails), the command context is finalised and its buffer freed, then,
  only if a nested context was retrieved, that context is finalised and freed, and last
  \<open>tpm2_tcti_ldr_unload\<close> is called. The unload is entered with the handle the
  destructor started with, so the plugin state is still in place when the nested context
  is finalised, and it is cleared afterwards. With a live pool the rest of the destructor
  runs to its end and does not call the unload again.
\<close>

theorem teardown_order:
  "trace (dtor_tpm e f w) =
     trace w @ [Sys_GetTctiContext (context_p f), Sys_Finalize (context_p f),
                Free (context_p f)] @
       (case (if fst (Tss2_Sys_GetTctiContext_ret e (context_p f)) = TSS2_RC_SUCCESS
              then snd (Tss2_Sys_GetTctiContext_ret e (context_p f)) else None) of
          None \<Rightarrow> []
        | Some tc \<Rightarrow> [Tcti_Finalize tc, Free (Some tc)]) @
       [Ldr_unload (handle w)] \<and>
   handle (dtor_tpm e f w) = None \<and>
   (handle w \<noteq> None \<longrightarrow> info (dtor_tpm e f w) = None) \<and>
   tcti (dtor_tpm e f w) = tcti w \<and>
   OSSLCryptoFactory_dtor b e f w =
     dtor_recycle_locks
       ((if legacy_locking b then dtor_locking_callback f else id)
          (dtor_rng f ((if WITH_GOST b then dtor_gost f else id) (dtor_tpm e f w)))) \<and>
   (unat (nlocks w) \<le> length (locks w) \<longrightarrow>
      (\<exists>w' es. OSSLCryptoFactory_dtor b e f w = Inr w' \<and>
         trace w' = trace (dtor_tpm e f w) @ es \<and>
         Ldr_unload (handle w) \<notin> set es \<and> handle w' = None))"
proof -
  have inf: "info (dtor_tpm e f w) = None" if "handle w \<noteq> None"
    using that
    by (auto simp: dtor_tpm_def tpm2_tcti_ldr_unload_def Let_def split_beta
        split: option.splits)
  have comp: "OSSLCryptoFactory_dtor b e f w =
     dtor_recycle_locks
       ((if legacy_locking b then dtor_locking_callback f else id)
          (dtor_rng f ((if WITH_GOST b then dtor_gost f else id) (dtor_tpm e f w))))"
    by (simp add: OSSLCryptoFactory_dtor_def Let_def)
  have whole: "\<exists>w' es. OSSLCryptoFactory_dtor b e f w = Inr w' \<and>
         trace w' = trace (dtor_tpm e f w) @ es \<and>
         Ldr_unload (handle w) \<notin> set es \<and> handle w' = None"
    if pool: "unat (nlocks w) \<le> length (locks w)"
  proof -
    from dtor_result [OF pool, of b e f] obtain w' where
      r: "OSSLCryptoFactory_dtor b e f w = Inr w'" and h: "handle w' = None"
      and t: "trace w' = trace (dtor_tpm e f w) @
             (case (if WITH_GOST b then eg f else None) of
                None \<Rightarrow> [] | Some g \<Rightarrow> [Engine_finish g, Engine_free g]) @
             Delete_rng (rng f) #
             (if legacy_locking b \<and> setLockingCallback f
              then [Crypto_set_locking_callback None] else []) @
             map RecycleMutex (take (unat (nlocks w)) (locks w)) @ [Delete_locks]"
      by blast
    let ?es = "(case (if WITH_GOST b then eg f else None) of
                None \<Rightarrow> [] | Some g \<Rightarrow> [Engine_finish g, Engine_free g]) @
             Delete_rng (rng f) #
             (if legacy_locking b \<and> setLockingCallback f
              then [Crypto_set_locking_callback None] else []) @
             map RecycleMutex (take (unat (nlocks w)) (locks w)) @ [Delete_locks]"
    have "Ldr_unload (handle w) \<notin> set ?es"
      by (auto split: option.splits)
    with r h t show ?thesis
      by blast
  qed
  have h: "handle (dtor_tpm e f w) = None" and t: "tcti (dtor_tpm e f w) = tcti w"
    by simp_all
  from dtor_tpm_trace [of e f w] h inf t comp whole show ?thesis
    by blast
qed

theorem teardown_order_witness:
  "handle world_loaded \<noteq> None \<and>
   unat (nlocks world_loaded) \<le> length (locks world_loaded) \<and>
   dtor_tpm env_ok (members_raw\<lparr>context_p := Some 50\<rparr>) world_loaded =
     world_initial\<lparr>tcti := Some 12,
       trace := [Sys_GetTctiContext (Some 50), Sys_Finalize (Some 50), Free (Some 50),
                 Tcti_Finalize 12, Free (Some 12), Ldr_unload (Some 10)]\<rparr> \<and>
   dtor_tpm (env_ok\<lparr>Tss2_Sys_GetTctiContext_ret := (\<lambda>c. (1, Some 12))\<rparr>)
       (members_raw\<lparr>context_p := Some 50\<rparr>) world_loaded =
     world_initial\<lparr>tcti := Some 12,
       trace := [Sys_GetTctiContext (Some 50), Sys_Finalize (Some 50), Free (Some 50),
                 Ldr_unload (Some 10)]\<rparr>"
  using teardown_order
      [of env_ok "members_raw\<lparr>context_p := Some 50\<rparr>" world_loaded build_legacy_gost]
    teardown_order [of "env_ok\<lparr>Tss2_Sys_GetTctiContext_ret := (\<lambda>c. (1, Some 12))\<rparr>"
      "members_raw\<lparr>context_p := Some 50\<rparr>" world_loaded build_legacy_gost]
  by (simp add: sample_defs const_defs dtor_tpm_def tpm2_tcti_ldr_unload_def emit_def Let_def)

section \<open>The singleton: properties\<close>



section \<open>Algorithm dispatch: properties\<close>

text \<open>
  C7. \<open>getSymmetricAlgorithm\<close> returns an AES object for \<open>AES\<close> in every build, and
  \<open>getHashAlgorithm\<close> returns \<open>NULL\<close> and logs for an unknown kind. Each of the four
  dispatch functions returns an object exactly for the kinds the build supports (ECDH and
  ECDSA with \<open>WITH_ECC\<close>, the GOST kinds with \<open>WITH_GOST\<close>, EDDSA with
  \<open>WITH_EDDSA\<close>), and returns \<open>NULL\<close> exactly when it logs the unknown kind.
\<close>

theorem dispatch_rejects_unknown:
  "getSymmetricAlgorithm b AES = ([], Some OSSLAES) \<and>
   getHashAlgorithm b HashAlgo_Unknown = (unknown_algorithm, None) \<and>
   getSymmetricAlgorithm b ks =
     (if ks \<in> {AES, DES, DES3}
      then ([], Some (if ks = AES then OSSLAES else OSSLDES))
      else (unknown_algorithm, None)) \<and>
   (snd (getAsymmetricAlgorithm b ka) \<noteq> None) =
     (ka \<in> {RSA, DSA, DH} \<or> WITH_ECC b \<and> ka \<in> {ECDH, ECDSA} \<or>
      WITH_GOST b \<and> ka = AsymAlgo_GOST \<or> WITH_EDDSA b \<and> ka = EDDSA) \<and>
   (snd (getHashAlgorithm b kh) \<noteq> None) =
     (kh \<in> {MD5, SHA1, SHA224, SHA256, SHA384, SHA512} \<or> WITH_GOST b \<and> kh = HashAlgo_GOST) \<and>
   (snd (getMacAlgorithm b km) \<noteq> None) =
     (km \<in> {HMAC_MD5, HMAC_SHA1, HMAC_SHA224, HMAC_SHA256, HMAC_SHA384, HMAC_SHA512,
             CMAC_DES, CMAC_AES} \<or> WITH_GOST b \<and> km = HMAC_GOST) \<and>
   (snd (getSymmetricAlgorithm b ks) = None) =
     (fst (getSymmetricAlgorithm b ks) = unknown_algorithm) \<and>
   (snd (getAsymmetricAlgorithm b ka) = None) =
     (fst (getAsymmetricAlgorithm b ka) = unknown_algorithm) \<and>
   (snd (getHashAlgorithm b kh) = None) = (fst (getHashAlgorithm b kh) = unknown_algorithm) \<and>
   (snd (getMacAlgorithm b km) = None) = (fst (getMacAlgorithm b km) = unknown_algorithm)"
proof -
  have s: "getSymmetricAlgorithm b ks =
     (if ks \<in> {AES, DES, DES3}
      then ([], Some (if ks = AES then OSSLAES else OSSLDES))
      else (unknown_algorithm, None))"
    by (cases ks) simp_all
  have a: "(snd (getAsymmetricAlgorithm b ka) \<noteq> None) =
     (ka \<in> {RSA, DSA, DH} \<or> WITH_ECC b \<and> ka \<in> {ECDH, ECDSA} \<or>
      WITH_GOST b \<and> ka = AsymAlgo_GOST \<or> WITH_EDDSA b \<and> ka = EDDSA)"
    by (cases ka) simp_all
  have h: "(snd (getHashAlgorithm b kh) \<noteq> None) =
     (kh \<in> {MD5, SHA1, SHA224, SHA256, SHA384, SHA512} \<or> WITH_GOST b \<and> kh = HashAlgo_GOST)"
    by (cases kh) simp_all
  have m: "(snd (getMacAlgorithm b km) \<noteq> None) =
     (km \<in> {HMAC_MD5, HMAC_SHA1, HMAC_SHA224, HMAC_SHA256, HMAC_SHA384, HMAC_SHA512,
             CMAC_DES, CMAC_AES} \<or> WITH_GOST b \<and> km = HMAC_GOST)"
    by (cases km) simp_all
  have ls: "(snd (getSymmetricAlgorithm b ks) = None) =
     (fst (getSymmetricAlgorithm b ks) = unknown_algorithm)"
    by (cases ks) (simp_all add: unknown_algorithm_def)
  have la: "(snd (getAsymmetricAlgorithm b ka) = None) =
     (fst (getAsymmetricAlgorithm b ka) = unknown_algorithm)"
    by (cases ka) (simp_all add: unknown_algorithm_def)
  have lh: "(snd (getHashAlgorithm b kh) = None) =
     (fst (getHashAlgorithm b kh) = unknown_algorithm)"
    by (cases kh) (simp_all add: unknown_algorithm_def)
  have lm: "(snd (getMacAlgorithm b km) = None) =
     (fst (getMacAlgorithm b km) = unknown_algorithm)"
    by (cases km) (simp_all add: unknown_algorithm_def)
  show ?thesis
    using s a h m ls la lh lm by simp
qed

theorem dispatch_rejects_unknown_witness:
  "getSymmetricAlgorithm build_legacy_gost AES = ([], Some OSSLAES) \<and>
   getSymmetricAlgorithm build_legacy_gost SymAlgo_Unknown = (unknown_algorithm, None) \<and>
   getHashAlgorithm build_legacy_gost HashAlgo_Unknown = (unknown_algorithm, None) \<and>
   snd (getAsymmetricAlgorithm build_legacy_gost EDDSA) = None \<and>
   fst (getAsymmetricAlgorithm build_legacy_gost EDDSA) = unknown_algorithm \<and>
   snd (getHashAlgorithm build_legacy_gost HashAlgo_GOST) \<noteq> None \<and>
   snd (getMacAlgorithm build_legacy_gost CMAC_AES) \<noteq> None"
  using dispatch_rejects_unknown [of build_legacy_gost AES EDDSA HashAlgo_GOST CMAC_AES]
    dispatch_rejects_unknown
      [of build_legacy_gost SymAlgo_Unknown EDDSA HashAlgo_Unknown CMAC_AES]
  by (simp add: build_legacy_gost_def)

end
